theory Spec2Isabelle
  imports Complex_Main "HOL-Library.AList" "HOL-Library.Sublist"
begin

section \<open>Data model\<close>

text \<open>
  A pandas DataFrame is a sequence of named columns, every column with one dtype.
  The three dtypes the pipeline distinguishes are int64, float64 and object (text).
  Integers are unbounded and floating-point numbers are exact reals here: rounding
  and int64 overflow are outside this model, and no cell of a dataset is missing, NaN
  or infinite (the spec's data model: every cell is an integer, a floating-point
  number or text).
\<close>

datatype cell = IntV int | FloatV real | StrV string

datatype column = IntCol "int list" | FloatCol "real list" | ObjCol "string list"

type_synonym dataframe = "(string \<times> column) list"

datatype py_error =
    ValueError string
  | KeyError string
  | TypeError string
  | StopIteration

fun cells :: "column \<Rightarrow> cell list" where
  "cells (IntCol xs) = map IntV xs"
| "cells (FloatCol xs) = map FloatV xs"
| "cells (ObjCol xs) = map StrV xs"

definition columns :: "dataframe \<Rightarrow> string list" where
  "columns df = map fst df"

text \<open>\<open>len(df)\<close>: the number of rows.\<close>

definition nrows :: "dataframe \<Rightarrow> nat" where
  "nrows df = (case df of [] \<Rightarrow> 0 | (_, c) # _ \<Rightarrow> length (cells c))"

text \<open>Row \<open>i\<close> as a record (\<open>to_dict(orient='records')\<close>), and all rows in order.\<close>

definition row :: "dataframe \<Rightarrow> nat \<Rightarrow> (string \<times> cell) list" where
  "row df i = map (\<lambda>(n, c). (n, cells c ! i)) df"

definition rows :: "dataframe \<Rightarrow> (string \<times> cell) list list" where
  "rows df = map (row df) [0..<nrows df]"

text \<open>A well-formed dataset: column names are unique and all columns have one length.\<close>

definition wf_df :: "dataframe \<Rightarrow> bool" where
  "wf_df df = (distinct (map fst df) \<and> (\<forall>(n, c) \<in> set df. length (cells c) = nrows df))"

section \<open>Library parsers\<close>

text \<open>
  \<open>pd.to_numeric\<close>, \<open>int(str)\<close> and \<open>float(str)\<close> belong to pandas and Python.
  They are modelled on decimal literals: surrounding blanks are dropped, then an
  optional sign, digits with an optional fractional part, and an optional exponent.
  Any other text does not parse. (Text that pandas reads as NaN or as an infinity
  leaves its column as it is, as text that does not parse does: a NaN is caught by
  \<open>isnull\<close>, and \<open>int\<close> of an infinity raises inside the \<open>try\<close>.)
\<close>

definition is_digit :: "char \<Rightarrow> bool" where
  "is_digit c = (c \<in> set ''0123456789'')"

definition digit_val :: "char \<Rightarrow> nat" where
  "digit_val c = (case map_of (zip ''0123456789'' [0, 1, 2, 3, 4, 5, 6, 7, 8, 9]) c of
                    Some d \<Rightarrow> d | None \<Rightarrow> 0)"

definition digits_val :: "string \<Rightarrow> nat" where
  "digits_val ds = foldl (\<lambda>a c. 10 * a + digit_val c) 0 ds"

definition is_space :: "char \<Rightarrow> bool" where
  "is_space c = (c \<in> set [CHR '' '', CHR 0x09, CHR 0x0A, CHR 0x0D])"

definition strip :: "string \<Rightarrow> string" where
  "strip s = rev (dropWhile is_space (rev (dropWhile is_space s)))"

text \<open>The sign of a literal: the factor and the rest of the text.\<close>

fun split_sign :: "string \<Rightarrow> int \<times> string" where
  "split_sign [] = (1, [])"
| "split_sign (c # cs) =
     (if c = CHR ''-'' then (- 1, cs) else if c = CHR ''+'' then (1, cs) else (1, c # cs))"

text \<open>\<open>int(s)\<close> on text: an optionally signed, non-empty run of digits.\<close>

definition py_int_str :: "string \<Rightarrow> int option" where
  "py_int_str s =
     (let (sg, ds) = split_sign (strip s)
      in if ds \<noteq> [] \<and> list_all is_digit ds then Some (sg * int (digits_val ds)) else None)"

text \<open>The exponent part: empty, or \<open>e\<close>/\<open>E\<close> and an optionally signed run of digits.\<close>

definition parse_exponent :: "string \<Rightarrow> int option" where
  "parse_exponent s =
     (case s of
        [] \<Rightarrow> Some 0
      | c # cs \<Rightarrow>
          if c = CHR ''e'' \<or> c = CHR ''E''
          then (let (sg, ds) = split_sign cs
                in if ds \<noteq> [] \<and> list_all is_digit ds then Some (sg * int (digits_val ds))
                   else None)
          else None)"

definition pow10 :: "int \<Rightarrow> real" where
  "pow10 e = (if 0 \<le> e then 10 ^ nat e else 1 / 10 ^ nat (- e))"

definition parse_decimal :: "string \<Rightarrow> real option" where
  "parse_decimal s =
     (let (sg, u) = split_sign (strip s);
          ip = takeWhile is_digit u;
          r = dropWhile is_digit u;
          (fp, r') = (case r of
                        [] \<Rightarrow> ([], [])
                      | c # cs \<Rightarrow> if c = CHR ''.''
                                 then (takeWhile is_digit cs, dropWhile is_digit cs)
                                 else ([], c # cs))
      in if ip = [] \<and> fp = [] then None
         else (case parse_exponent r' of
                 None \<Rightarrow> None
               | Some e \<Rightarrow>
                   Some (real_of_int sg * real (digits_val (ip @ fp)) / 10 ^ length fp * pow10 e)))"

text \<open>\<open>int(x)\<close> on a float truncates towards zero.\<close>

definition py_int_real :: "real \<Rightarrow> int" where
  "py_int_real x = (if 0 \<le> x then \<lfloor>x\<rfloor> else \<lceil>x\<rceil>)"

section \<open>Type Normalizer: \<open>convert_to_numeric\<close>\<close>

text \<open>
  \<open>pd.to_numeric(df[col], errors='coerce')\<close>: a numeric column is returned as it is;
  each text cell is parsed, and a cell that does not parse becomes NaN (\<open>None\<close>).
\<close>

fun to_numeric :: "column \<Rightarrow> real option list" where
  "to_numeric (IntCol xs) = map (\<lambda>x. Some (real_of_int x)) xs"
| "to_numeric (FloatCol xs) = map Some xs"
| "to_numeric (ObjCol xs) = map parse_decimal xs"

text \<open>
  The body of the loop for one column: the column that \<open>df[col]\<close> holds afterwards.
  With a NaN in \<open>s\<close> nothing is assigned; when all values equal their \<open>int(x)\<close> the
  column is replaced by \<open>s.astype(int)\<close>; otherwise nothing is assigned either.
\<close>

definition convert_column :: "column \<Rightarrow> column" where
  "convert_column c =
     (let s = to_numeric c
      in if list_ex (\<lambda>x. x = None) s then c
         else if list_all (\<lambda>x. the x = real_of_int (py_int_real (the x))) s
              then IntCol (map (\<lambda>x. py_int_real (the x)) s)
              else c)"

text \<open>\<open>df[col]\<close> read and written by name.\<close>

definition get_col :: "dataframe \<Rightarrow> string \<Rightarrow> column option" where
  "get_col df name = map_of df name"

definition set_col :: "dataframe \<Rightarrow> string \<Rightarrow> column \<Rightarrow> dataframe" where
  "set_col df name c = AList.update name c df"

definition convert_step :: "string \<Rightarrow> dataframe \<Rightarrow> dataframe" where
  "convert_step name df =
     (case get_col df name of None \<Rightarrow> df | Some c \<Rightarrow> set_col df name (convert_column c))"

text \<open>The function mutates its argument in place; the model returns the mutated frame.\<close>

definition convert_to_numeric :: "dataframe \<Rightarrow> dataframe" where
  "convert_to_numeric df = fold convert_step (columns df) df"

section \<open>Outlier Filter: \<open>remove_outliers_iqr\<close>\<close>

text \<open>
  \<open>Series.quantile(q)\<close> with the default linear interpolation: on the sorted values
  the virtual index is \<open>q * (n - 1)\<close>, and the result interpolates between the two
  neighbouring values. An empty column gives NaN (\<open>None\<close>) whatever its dtype; a
  non-empty text column raises.
\<close>

definition quantile_linear :: "real list \<Rightarrow> real \<Rightarrow> real" where
  "quantile_linear xs q =
     (let s = sort xs;
          h = q * (real (length xs) - 1);
          lo = nat \<lfloor>h\<rfloor>;
          hi = min (lo + 1) (length xs - 1)
      in s ! lo + (h - real lo) * (s ! hi - s ! lo))"

fun quantile :: "column \<Rightarrow> real \<Rightarrow> py_error + real option" where
  "quantile (IntCol xs) q =
     (if xs = [] then Inr None else Inr (Some (quantile_linear (map real_of_int xs) q)))"
| "quantile (FloatCol xs) q =
     (if xs = [] then Inr None else Inr (Some (quantile_linear xs q)))"
| "quantile (ObjCol xs) q =
     (if xs = [] then Inr None
      else Inl (TypeError ''unsupported operand type(s) for -: str and str''))"

text \<open>
  The two bounds; with NaN quartiles (\<open>None\<close>) both bounds are NaN and every
  comparison with them is false.
\<close>

definition iqr_bounds :: "real option \<Rightarrow> real option \<Rightarrow> (real \<times> real) option" where
  "iqr_bounds Q1 Q3 =
     (case (Q1, Q3) of
        (Some q1, Some q3) \<Rightarrow>
          (let IQR = q3 - q1 in Some (q1 - 1.5 * IQR, q3 + 1.5 * IQR))
      | _ \<Rightarrow> None)"

definition in_bounds :: "(real \<times> real) option \<Rightarrow> real \<Rightarrow> bool" where
  "in_bounds b v = (case b of None \<Rightarrow> False | Some (lower_bound, upper_bound) \<Rightarrow>
                   v \<ge> lower_bound \<and> v \<le> upper_bound)"

text \<open>
  \<open>(dataframe[column_name] >= lower_bound) & (dataframe[column_name] <= upper_bound)\<close>:
  comparing text with a number raises.
\<close>

fun bounds_mask :: "column \<Rightarrow> (real \<times> real) option \<Rightarrow> py_error + bool list" where
  "bounds_mask (IntCol xs) b = Inr (map (\<lambda>x. in_bounds b (real_of_int x)) xs)"
| "bounds_mask (FloatCol xs) b = Inr (map (in_bounds b) xs)"
| "bounds_mask (ObjCol xs) b =
     (if xs = [] then Inr []
      else Inl (TypeError ''>= not supported between instances of str and float''))"

text \<open>Boolean-mask selection \<open>dataframe[mask]\<close>: a new frame with the rows marked true.\<close>

definition take_mask :: "bool list \<Rightarrow> 'a list \<Rightarrow> 'a list" where
  "take_mask m xs = map snd (filter fst (zip m xs))"

fun mask_column :: "bool list \<Rightarrow> column \<Rightarrow> column" where
  "mask_column m (IntCol xs) = IntCol (take_mask m xs)"
| "mask_column m (FloatCol xs) = FloatCol (take_mask m xs)"
| "mask_column m (ObjCol xs) = ObjCol (take_mask m xs)"

definition select_rows :: "bool list \<Rightarrow> dataframe \<Rightarrow> dataframe" where
  "select_rows m df = map (\<lambda>(n, c). (n, mask_column m c)) df"

definition remove_outliers_iqr :: "dataframe \<Rightarrow> string \<Rightarrow> py_error + dataframe" where
  "remove_outliers_iqr dataframe column_name =
     (case get_col dataframe column_name of
        None \<Rightarrow> Inl (KeyError column_name)
      | Some c \<Rightarrow>
          (case quantile c 0.25 of
             Inl e \<Rightarrow> Inl e
           | Inr Q1 \<Rightarrow>
               (case quantile c 0.75 of
                  Inl e \<Rightarrow> Inl e
                | Inr Q3 \<Rightarrow>
                    (case bounds_mask c (iqr_bounds Q1 Q3) of
                       Inl e \<Rightarrow> Inl e
                     | Inr m \<Rightarrow> Inr (select_rows m dataframe)))))"

section \<open>Aggregator/Formatter: \<open>create_chartjs_data\<close>\<close>

text \<open>
  The payload dictionary. \<open>options_scales\<close> is the entry \<open>options["scales"]\<close>, which
  a \<open>pop\<close> removes (\<open>None\<close>); the \<open>display\<close> flags of the titles are constants.
\<close>

record scales =
  y_beginAtZero :: bool
  y_title_text :: string
  x_title_text :: string

record chart_payload =
  chartType :: string
  data :: "(string \<times> cell) list list"
  labelsKey :: string
  valuesKey :: string
  options_scales :: "scales option"

definition initial_chart_data :: "string \<Rightarrow> chart_payload" where
  "initial_chart_data chart_type =
     \<lparr>chartType = chart_type, data = [], labelsKey = [], valuesKey = ''Value'',
      options_scales =
        Some \<lparr>y_beginAtZero = True, y_title_text = ''Value'', x_title_text = ''Category''\<rparr>\<rparr>"

text \<open>\<open>str.lower()\<close> on ASCII letters.\<close>

definition lower_char :: "char \<Rightarrow> char" where
  "lower_char c =
     (case map_of (zip ''ABCDEFGHIJKLMNOPQRSTUVWXYZ'' ''abcdefghijklmnopqrstuvwxyz'') c of
        Some d \<Rightarrow> d | None \<Rightarrow> c)"

definition lower :: "string \<Rightarrow> string" where
  "lower s = map lower_char s"

text \<open>\<open>sep.join(xs)\<close>.\<close>

fun join :: "string \<Rightarrow> string list \<Rightarrow> string" where
  "join sep [] = []"
| "join sep [x] = x"
| "join sep (x # y # ys) = x @ sep @ join sep (y # ys)"

text \<open>A list of results is a result: the first exception raised ends the loop.\<close>

fun collect :: "(py_error + 'a) list \<Rightarrow> py_error + 'a list" where
  "collect [] = Inr []"
| "collect (x # xs) =
     (case x of
        Inl e \<Rightarrow> Inl e
      | Inr v \<Rightarrow> (case collect xs of Inl e \<Rightarrow> Inl e | Inr vs \<Rightarrow> Inr (v # vs)))"

text \<open>\<open>int(val)\<close> on a cell of any dtype.\<close>

fun py_int_cell :: "cell \<Rightarrow> py_error + cell" where
  "py_int_cell (IntV i) = Inr (IntV i)"
| "py_int_cell (FloatV x) = Inr (IntV (py_int_real x))"
| "py_int_cell (StrV s) =
     (case py_int_str s of
        None \<Rightarrow> Inl (ValueError (''invalid literal for int() with base 10: '' @ s))
      | Some i \<Rightarrow> Inr (IntV i))"

text \<open>
  \<open>int(val) if is_integer_dtype(column) else float(val)\<close>: a cell of an int64 column is
  an integer, a cell of any other column goes through \<open>float\<close>.
\<close>

fun coerce_cell :: "cell \<Rightarrow> py_error + cell" where
  "coerce_cell (IntV i) = Inr (IntV i)"
| "coerce_cell (FloatV x) = Inr (FloatV x)"
| "coerce_cell (StrV s) =
     (case parse_decimal s of
        None \<Rightarrow> Inl (ValueError (''could not convert string to float: '' @ s))
      | Some x \<Rightarrow> Inr (FloatV x))"

fun is_numeric_dtype :: "column option \<Rightarrow> bool" where
  "is_numeric_dtype (Some (IntCol _)) = True"
| "is_numeric_dtype (Some (FloatCol _)) = True"
| "is_numeric_dtype _ = False"

text \<open>
  The pie/doughnut loop over \<open>df[[labels_col, values_col]].iterrows()\<close>. With the same
  name twice the selection has two columns of that name, \<open>row[labels_col]\<close> is a Series
  and its conversion raises. In the dictionary literal a repeated key keeps the later
  value.
\<close>

definition pie_rows ::
  "dataframe \<Rightarrow> string \<Rightarrow> string \<Rightarrow> py_error + (string \<times> cell) list list" where
  "pie_rows df labels_col values_col =
     (case get_col df labels_col of
        None \<Rightarrow> Inl (KeyError labels_col)
      | Some lc \<Rightarrow>
          (case get_col df values_col of
             None \<Rightarrow> Inl (KeyError values_col)
           | Some vc \<Rightarrow>
               if labels_col = values_col \<and> cells lc \<noteq> []
               then Inl (TypeError ''cannot convert the series to a number'')
               else collect (map (\<lambda>(l, v).
                      (case coerce_cell l of
                         Inl e \<Rightarrow> Inl e
                       | Inr l' \<Rightarrow>
                           (case coerce_cell v of
                              Inl e \<Rightarrow> Inl e
                            | Inr v' \<Rightarrow> Inr (AList.update values_col v' [(labels_col, l')]))))
                      (zip (cells lc) (cells vc)))))"

text \<open>\<open>for i, val in enumerate(df[col].tolist()): chart_data["data"][i][col] = ...\<close>\<close>

definition fill_values ::
  "dataframe \<Rightarrow> string \<Rightarrow> chart_payload \<Rightarrow> py_error + chart_payload" where
  "fill_values df col cd =
     (case get_col df col of
        None \<Rightarrow> Inl (KeyError col)
      | Some vc \<Rightarrow>
          (case collect (map coerce_cell (cells vc)) of
             Inl e \<Rightarrow> Inl e
           | Inr vs \<Rightarrow>
               Inr (cd\<lparr>valuesKey := col,
                       data := map (\<lambda>(r, v). AList.update col v r) (zip (data cd) vs)\<rparr>)))"

text \<open>The branch for bar, line and every other chart type.\<close>

definition bar_rows ::
  "dataframe \<Rightarrow> string \<Rightarrow> string list \<Rightarrow> chart_payload \<Rightarrow> py_error + chart_payload" where
  "bar_rows df labels_col value_columns cd0 =
     (case get_col df labels_col of
        None \<Rightarrow> Inl (KeyError labels_col)
      | Some lc \<Rightarrow>
          (case collect (map py_int_cell (cells lc)) of
             Inl e \<Rightarrow> Inl e
           | Inr ls \<Rightarrow>
               (let cd = cd0\<lparr>labelsKey := labels_col,
                              data := map (\<lambda>l. [(labels_col, l)]) ls\<rparr>
                in if value_columns = [] then Inr cd
                   else if length value_columns = 1 then fill_values df (value_columns ! 0) cd
                   else (case find (\<lambda>col. is_numeric_dtype (get_col df col)) value_columns of
                           None \<Rightarrow> Inl (ValueError
                             ''No numeric column found to represent 'value' in the selected columns.'')
                         | Some col \<Rightarrow> fill_values df col cd))))"

text \<open>
  The sort key \<open>list(item.values())[0]\<close>. Every value of an entry was produced by
  \<open>int\<close> or \<open>float\<close>, so it is a number.
\<close>

fun num_of :: "cell \<Rightarrow> real" where
  "num_of (IntV i) = real_of_int i"
| "num_of (FloatV x) = x"
| "num_of (StrV s) = 0"

fun first_value :: "(string \<times> cell) list \<Rightarrow> real" where
  "first_value [] = 0"
| "first_value ((k, v) # r) = num_of v"

definition mean :: "real list \<Rightarrow> real" where
  "mean vs = sum_list vs / real (length vs)"

text \<open>
  \<open>pd.DataFrame(data).groupby(by).agg({col: ['mean'] ...}).reset_index().to_dict('records')\<close>:
  one record per distinct key, keys ascending, every other column replaced by the mean
  of its group. A frame made from no record has no column, so the grouping key is
  missing; with no column to aggregate pandas has nothing to concatenate.
\<close>

definition aggregate ::
  "string \<Rightarrow> (string \<times> cell) list list \<Rightarrow> py_error + (string \<times> cell) list list" where
  "aggregate aggregate_by_col d =
     (case d of
        [] \<Rightarrow> Inl (KeyError aggregate_by_col)
      | r0 # _ \<Rightarrow>
          (let numerical_cols = filter (\<lambda>col. col \<noteq> aggregate_by_col) (map fst r0);
               group_keys = sort_key num_of
                              (remdups (List.map_filter (\<lambda>r. map_of r aggregate_by_col) d))
           in if numerical_cols = [] then Inl (ValueError ''No objects to concatenate'')
              else Inr (map (\<lambda>k.
                     (aggregate_by_col, k) #
                     map (\<lambda>col. (col, FloatV (mean (map num_of (List.map_filter
                            (\<lambda>r. map_of r col)
                            (filter (\<lambda>r. map_of r aggregate_by_col = Some k) d))))))
                         numerical_cols)
                   group_keys)))"

text \<open>
  The statements after the two branches: the x-axis title is written into
  \<open>options["scales"]\<close>, which must still be there; then the entries are sorted by their
  first value and grouped.
\<close>

definition finish :: "string \<Rightarrow> chart_payload \<Rightarrow> py_error + chart_payload" where
  "finish labels_col cd =
     (case options_scales cd of
        None \<Rightarrow> Inl (KeyError ''scales'')
      | Some sc \<Rightarrow>
          (case aggregate labels_col (sort_key first_value (data cd)) of
             Inl e \<Rightarrow> Inl e
           | Inr g \<Rightarrow>
               Inr (cd\<lparr>options_scales := Some (sc\<lparr>x_title_text := labels_col\<rparr>),
                       data := g\<rparr>)))"

text \<open>
  Everything from the check of \<open>column_names\<close> on, for the frame \<open>df\<close> that the loop
  of outlier removals left.
\<close>

definition build_chart :: "dataframe \<Rightarrow> string list \<Rightarrow> string \<Rightarrow> py_error + chart_payload" where
  "build_chart df column_names chart_type =
     (case column_names of
        [] \<Rightarrow> Inl (ValueError ''column_names cannot be empty.'')
      | labels_col # value_columns \<Rightarrow>
          (let missing_columns = filter (\<lambda>col. col \<notin> set (columns df)) column_names
           in if missing_columns \<noteq> []
              then Inl (ValueError (''Columns not found in DataFrame: ''
                                     @ join '', '' missing_columns))
              else if lower chart_type \<in> set [''pie'', ''doughnut'']
              then (if length column_names \<noteq> 2
                    then Inl (ValueError (''For '' @ [CHR 0x27] @ chart_type @ [CHR 0x27]
                           @ '' charts, 'column_names' must contain exactly two columns: ''
                           @ ''[labels_column, values_column].''))
                    else (case pie_rows df labels_col (column_names ! 1) of
                            Inl e \<Rightarrow> Inl e
                          | Inr d \<Rightarrow>
                              finish labels_col
                                ((initial_chart_data chart_type)
                                   \<lparr>labelsKey := labels_col,
                                    valuesKey := column_names ! 1,
                                    data := d,
                                    options_scales := None\<rparr>)))
              else (case bar_rows df labels_col value_columns
                           (initial_chart_data chart_type) of
                      Inl e \<Rightarrow> Inl e
                    | Inr cd \<Rightarrow> finish labels_col cd)))"

subsection \<open>Objects and references\<close>

text \<open>
  A DataFrame is an object: the caller and the function hold references to it. The
  store maps addresses to the frames the objects hold; \<open>fresh\<close> is the next unused
  address. \<open>df[col] = ...\<close> writes into the object a reference points to, while the
  selection \<open>dataframe[mask]\<close> makes a new object.
\<close>

record store =
  frames :: "nat \<Rightarrow> dataframe"
  fresh :: nat

definition write_frame :: "nat \<Rightarrow> dataframe \<Rightarrow> store \<Rightarrow> store" where
  "write_frame a d st = st\<lparr>frames := (frames st)(a := d)\<rparr>"

definition alloc :: "dataframe \<Rightarrow> store \<Rightarrow> nat \<times> store" where
  "alloc d st = (fresh st, st\<lparr>frames := (frames st)(fresh st := d), fresh := Suc (fresh st)\<rparr>)"

text \<open>A store with one object, at address 0.\<close>

definition store_of :: "dataframe \<Rightarrow> store" where
  "store_of d = \<lparr>frames = (\<lambda>_. [])(0 := d), fresh = 1\<rparr>"

text \<open>
  The loop \<open>for col in column_names: df = remove_outliers_iqr(df, col)\<close>: each round
  binds the local name \<open>df\<close> to the new object; an exception ends the call.
\<close>

fun remove_outliers_loop :: "string list \<Rightarrow> nat \<Rightarrow> store \<Rightarrow> store \<times> (py_error + nat)" where
  "remove_outliers_loop [] df st = (st, Inr df)"
| "remove_outliers_loop (col # cols) df st =
     (case remove_outliers_iqr (frames st df) col of
        Inl e \<Rightarrow> (st, Inl e)
      | Inr d \<Rightarrow> (let (df', st') = alloc d st in remove_outliers_loop cols df' st'))"

text \<open>
  The call \<open>create_chartjs_data(df, column_names, chart_type)\<close> for a reference \<open>df\<close>:
  the store after the call, and the payload returned or the exception raised.
  \<open>convert_to_numeric(df)\<close> writes into the caller's object.
\<close>

definition create_chartjs_data ::
  "store \<Rightarrow> nat \<Rightarrow> string list \<Rightarrow> string \<Rightarrow> store \<times> (py_error + chart_payload)" where
  "create_chartjs_data st df column_names chart_type =
     (let st1 = write_frame df (convert_to_numeric (frames st df)) st
      in (case remove_outliers_loop column_names df st1 of
            (st2, Inl e) \<Rightarrow> (st2, Inl e)
          | (st2, Inr df') \<Rightarrow> (st2, build_chart (frames st2 df') column_names chart_type)))"

text \<open>
  The same call read as a function of the frame the caller's object holds: the frames
  the loop goes through, and the result of the call.
\<close>

fun remove_outliers_all :: "dataframe \<Rightarrow> string list \<Rightarrow> py_error + dataframe" where
  "remove_outliers_all df [] = Inr df"
| "remove_outliers_all df (col # cols) =
     (case remove_outliers_iqr df col of
        Inl e \<Rightarrow> Inl e
      | Inr df' \<Rightarrow> remove_outliers_all df' cols)"

definition chart_of :: "dataframe \<Rightarrow> string list \<Rightarrow> string \<Rightarrow> py_error + chart_payload" where
  "chart_of d column_names chart_type =
     (case remove_outliers_all (convert_to_numeric d) column_names of
        Inl e \<Rightarrow> Inl e
      | Inr d' \<Rightarrow> build_chart d' column_names chart_type)"

section \<open>Inference Extractor: ranking by first offset\<close>

text \<open>\<open>response_str.find(key)\<close>: the lowest offset at which \<open>key\<close> occurs, or \<open>-1\<close>.\<close>

fun str_find :: "string \<Rightarrow> string \<Rightarrow> int" where
  "str_find [] key = (if key = [] then 0 else - 1)"
| "str_find (c # cs) key =
     (if prefix key (c # cs) then 0
      else (let r = str_find cs key in if r = - 1 then - 1 else r + 1))"

text \<open>
  A dictionary with insertion order is an association list with unique keys. The
  function overwrites the value of every key of its argument.
\<close>

definition find_substrings_in_response ::
  "string \<Rightarrow> (string \<times> int) list \<Rightarrow> (string \<times> int) list" where
  "find_substrings_in_response response_str stringsToFind =
     map (\<lambda>(key, _). (key, str_find response_str key)) stringsToFind"

text \<open>
  The search, the filter on \<open>v != -1\<close> and the stable sort by offset, as
  \<open>process_data_and_plot\<close> applies them to both dictionaries.
\<close>

definition ranking :: "string \<Rightarrow> (string \<times> int) list \<Rightarrow> (string \<times> int) list" where
  "ranking llm_response_raw found =
     sort_key snd (filter (\<lambda>(k, v). v \<noteq> - 1)
                          (find_substrings_in_response llm_response_raw found))"

definition found_chart_types :: "(string \<times> int) list" where
  "found_chart_types = [(''bar'', - 1), (''line'', - 1), (''pie'', - 1)]"

definition found_column_names :: "dataframe \<Rightarrow> (string \<times> int) list" where
  "found_column_names df = fold (\<lambda>col_name d. AList.update col_name (- 1) d) (columns df) []"

text \<open>\<open>next(iter(sorted_chart_types))\<close>: the first key, or \<open>StopIteration\<close>.\<close>

definition choosen_chart_type :: "string \<Rightarrow> py_error + string" where
  "choosen_chart_type llm_response_raw =
     (case ranking llm_response_raw found_chart_types of
        [] \<Rightarrow> Inl StopIteration
      | (k, _) # _ \<Rightarrow> Inr k)"

definition shorten_response :: "string \<Rightarrow> string" where
  "shorten_response s =
     (if CHR '','' \<in> set s then rev (tl (dropWhile (\<lambda>c. c \<noteq> CHR '','') (rev s))) else s)"

text \<open>
  The body of the \<open>try\<close> in \<open>process_data_and_plot\<close>, from the response of the language
  model on; the \<open>except\<close> clause turns every exception into the error result.
\<close>

definition process_data_and_plot ::
  "store \<Rightarrow> nat \<Rightarrow> string \<Rightarrow> store \<times> (py_error + chart_payload \<times> string)" where
  "process_data_and_plot st df llm_response_raw =
     (case choosen_chart_type llm_response_raw of
        Inl e \<Rightarrow> (st, Inl e)
      | Inr chart_type \<Rightarrow>
          (let sorted_column_names = ranking llm_response_raw (found_column_names (frames st df));
               (st', r) = create_chartjs_data st df (map fst sorted_column_names) chart_type
           in (st', (case r of
                       Inl e \<Rightarrow> Inl e
                     | Inr chart_data \<Rightarrow> Inr (chart_data, shorten_response llm_response_raw)))))"

section \<open>Properties of the Type Normalizer\<close>

lemmas parse_simps =
  parse_decimal_def py_int_str_def strip_def is_space_def is_digit_def parse_exponent_def
  digits_val_def digit_val_def pow10_def py_int_real_def

lemma py_int_real_of_int: "py_int_real (real_of_int i) = i"
  by (simp add: py_int_real_def)

lemma py_int_real_integral: "x = real_of_int i \<Longrightarrow> py_int_real x = \<lfloor>x\<rfloor>"
  by (simp add: py_int_real_def)

lemma convert_column_idem: "convert_column (convert_column c) = convert_column c"
proof (cases "convert_column c = c")
  case True
  then show ?thesis by simp
next
  case False
  then have eq: "convert_column c = IntCol (map (\<lambda>x. py_int_real (the x)) (to_numeric c))"
    by (simp add: convert_column_def Let_def split: if_splits)
  show ?thesis
    unfolding eq
    by (simp add: convert_column_def Let_def list_ex_iff list_all_iff py_int_real_of_int o_def)
qed

lemma length_convert_column: "length (cells (convert_column c)) = length (cells c)"
  by (cases c) (simp_all add: convert_column_def Let_def)

lemma columns_convert_step: "columns (convert_step n df) = columns df"
  by (auto simp: convert_step_def columns_def get_col_def set_col_def update_keys
      map_of_eq_None_iff split: option.splits)

lemma get_col_convert_step:
  "get_col (convert_step m df) n =
     (if n = m then map_option convert_column (get_col df n) else get_col df n)"
  by (simp add: convert_step_def get_col_def set_col_def update_conv' split: option.splits)

lemma update_twice: "AList.update n v (AList.update n w al) = AList.update n v al"
  by (induction al) auto

lemma update_swap_present:
  "n \<noteq> m \<Longrightarrow> n \<in> fst ` set al \<Longrightarrow> m \<in> fst ` set al \<Longrightarrow>
   AList.update n v (AList.update m w al) = AList.update m w (AList.update n v al)"
  by (induction al) (auto simp: update_twice)

lemma convert_step_idem: "convert_step n (convert_step n df) = convert_step n df"
  by (simp add: convert_step_def get_col_def set_col_def update_conv' update_twice
      convert_column_idem split: option.splits)

lemma convert_step_commute:
  "convert_step n (convert_step m df) = convert_step m (convert_step n df)"
proof (cases "n = m")
  case True
  then show ?thesis by simp
next
  case False
  show ?thesis
  proof (cases "get_col df n")
    case None
    then show ?thesis using False
      by (simp add: convert_step_def get_col_def set_col_def update_conv' split: option.splits)
  next
    case (Some a)
    note a = this
    show ?thesis
    proof (cases "get_col df m")
      case None
      then show ?thesis using False a
        by (simp add: convert_step_def get_col_def set_col_def update_conv' split: option.splits)
    next
      case (Some b)
      have "n \<in> fst ` set df" "m \<in> fst ` set df"
        using a Some by (auto simp: get_col_def dest!: map_of_SomeD intro: rev_image_eqI)
      then show ?thesis using False a Some
        by (simp add: convert_step_def get_col_def set_col_def update_conv' update_swap_present)
    qed
  qed
qed

lemma fold_convert_step_commute:
  "convert_step n (fold convert_step ns df) = fold convert_step ns (convert_step n df)"
  by (induction ns arbitrary: df) (simp_all add: convert_step_commute)

lemma fold_convert_step_idem:
  "fold convert_step ns (fold convert_step ns df) = fold convert_step ns df"
proof (induction ns arbitrary: df)
  case Nil
  then show ?case by simp
next
  case (Cons n ns)
  have "fold convert_step (n # ns) (fold convert_step (n # ns) df)
      = fold convert_step ns (convert_step n (fold convert_step ns (convert_step n df)))"
    by simp
  also have "\<dots> = fold convert_step ns (fold convert_step ns (convert_step n (convert_step n df)))"
    by (simp add: fold_convert_step_commute)
  also have "\<dots> = fold convert_step ns (convert_step n df)"
    by (simp add: convert_step_idem Cons.IH)
  finally show ?case by simp
qed

lemma columns_fold_convert_step: "columns (fold convert_step ns df) = columns df"
  by (induction ns arbitrary: df) (simp_all add: columns_convert_step)

lemma columns_convert_to_numeric: "columns (convert_to_numeric df) = columns df"
  by (simp add: convert_to_numeric_def columns_fold_convert_step)

lemma get_col_fold_convert_step:
  "get_col (fold convert_step ns df) n =
     (if n \<in> set ns then map_option convert_column (get_col df n) else get_col df n)"
  by (induction ns arbitrary: df)
     (auto simp: get_col_convert_step option.map_comp o_def convert_column_idem)

lemma get_col_convert_to_numeric:
  "get_col (convert_to_numeric df) n = map_option convert_column (get_col df n)"
proof (cases "n \<in> set (columns df)")
  case True
  then show ?thesis by (simp add: convert_to_numeric_def get_col_fold_convert_step)
next
  case False
  then have "get_col df n = None"
    by (simp add: columns_def get_col_def map_of_eq_None_iff)
  then show ?thesis using False by (simp add: convert_to_numeric_def get_col_fold_convert_step)
qed

text \<open>
  C7. Running the Type Normalizer on its own result changes nothing: it is idempotent,
  for every dataset.
\<close>

theorem convert_to_numeric_idempotent:
  "convert_to_numeric (convert_to_numeric df) = convert_to_numeric df"
  by (simp add: convert_to_numeric_def columns_fold_convert_step fold_convert_step_idem)

lemma nrows_convert_to_numeric: "nrows (convert_to_numeric df) = nrows df"
proof (cases df)
  case Nil
  then show ?thesis by (simp add: convert_to_numeric_def columns_def)
next
  case (Cons p rest)
  obtain n c where p: "p = (n, c)" by (cases p)
  have cols: "map fst (convert_to_numeric df) = n # map fst rest"
    using columns_convert_to_numeric [of df] Cons p by (simp add: columns_def)
  then obtain c' rest' where r: "convert_to_numeric df = (n, c') # rest'"
    by (cases "convert_to_numeric df") auto
  have "get_col df n = Some c" using Cons p by (simp add: get_col_def)
  then have "get_col (convert_to_numeric df) n = Some (convert_column c)"
    by (simp add: get_col_convert_to_numeric)
  then have "c' = convert_column c" using r by (simp add: get_col_def)
  then show ?thesis using r Cons p by (simp add: nrows_def length_convert_column)
qed

lemma convert_to_numeric_single: "convert_to_numeric [(n, c)] = [(n, convert_column c)]"
  by (simp add: convert_to_numeric_def columns_def convert_step_def get_col_def set_col_def)



lemma convert_column_unparsed:
  assumes "\<exists>x \<in> set (to_numeric c). x = None"
  shows "convert_column c = c"
  using assms by (simp add: convert_column_def Let_def list_ex_iff)




lemma to_numeric_mixed: "to_numeric (ObjCol [''1'', ''2.0'']) = [Some 1, Some 2]"
  by (simp add: parse_simps)





section \<open>The caller's dataset\<close>

lemma remove_outliers_loop_frames:
  "a < fresh st \<Longrightarrow> remove_outliers_loop cols a st = (st', r) \<Longrightarrow>
     fresh st \<le> fresh st' \<and> (\<forall>b < fresh st. frames st' b = frames st b) \<and>
     (case r of
        Inl e \<Rightarrow> remove_outliers_all (frames st a) cols = Inl e
      | Inr a' \<Rightarrow> a' < fresh st' \<and> remove_outliers_all (frames st a) cols = Inr (frames st' a'))"
proof (induction cols arbitrary: a st)
  case Nil
  then show ?case by auto
next
  case (Cons col cols)
  show ?case
  proof (cases "remove_outliers_iqr (frames st a) col")
    case (Inl e)
    then show ?thesis using Cons.prems by auto
  next
    case (Inr d)
    let ?st1 = "snd (alloc d st)"
    have run: "remove_outliers_loop cols (fresh st) ?st1 = (st', r)"
      using Cons.prems(2) Inr by (simp add: alloc_def)
    have lt: "fresh st < fresh ?st1" by (simp add: alloc_def)
    from Cons.IH [OF lt run]
    have ih: "fresh ?st1 \<le> fresh st'" "\<forall>b < fresh ?st1. frames st' b = frames ?st1 b"
      "(case r of
          Inl e \<Rightarrow> remove_outliers_all (frames ?st1 (fresh st)) cols = Inl e
        | Inr a' \<Rightarrow> a' < fresh st' \<and>
                   remove_outliers_all (frames ?st1 (fresh st)) cols = Inr (frames st' a'))"
      by auto
    have f1: "frames ?st1 (fresh st) = d" by (simp add: alloc_def)
    have f2: "\<forall>b < fresh st. frames ?st1 b = frames st b" by (simp add: alloc_def)
    have f3: "fresh ?st1 = Suc (fresh st)" by (simp add: alloc_def)
    show ?thesis
      using ih f1 f2 f3 Inr by (auto split: sum.splits)
  qed
qed

text \<open>The result of a call is the function \<open>chart_of\<close> of the frame the caller passed.\<close>

lemma create_chartjs_data_result:
  assumes "df < fresh st"
  shows "snd (create_chartjs_data st df column_names chart_type)
           = chart_of (frames st df) column_names chart_type"
proof -
  let ?st1 = "write_frame df (convert_to_numeric (frames st df)) st"
  obtain st2 r where run: "remove_outliers_loop column_names df ?st1 = (st2, r)"
    by (cases "remove_outliers_loop column_names df ?st1")
  have lt: "df < fresh ?st1" using assms by (simp add: write_frame_def)
  have fr: "frames ?st1 df = convert_to_numeric (frames st df)" by (simp add: write_frame_def)
  from remove_outliers_loop_frames [OF lt run]
  have "case r of
          Inl e \<Rightarrow> remove_outliers_all (frames ?st1 df) column_names = Inl e
        | Inr a' \<Rightarrow> a' < fresh st2 \<and>
                   remove_outliers_all (frames ?st1 df) column_names = Inr (frames st2 a')"
    by blast
  then show ?thesis
    using run unfolding fr
    by (cases r) (simp_all add: create_chartjs_data_def chart_of_def Let_def)
qed

lemma create_chartjs_data_frames:
  assumes "df < fresh st"
  shows "frames (fst (create_chartjs_data st df column_names chart_type)) df
           = convert_to_numeric (frames st df)"
    and "\<forall>b < fresh st. b \<noteq> df \<longrightarrow>
           frames (fst (create_chartjs_data st df column_names chart_type)) b = frames st b"
proof -
  let ?st1 = "write_frame df (convert_to_numeric (frames st df)) st"
  obtain st2 r where run: "remove_outliers_loop column_names df ?st1 = (st2, r)"
    by (cases "remove_outliers_loop column_names df ?st1")
  have lt: "df < fresh ?st1" using assms by (simp add: write_frame_def)
  have fst_eq: "fst (create_chartjs_data st df column_names chart_type) = st2"
    using run by (cases r) (simp_all add: create_chartjs_data_def Let_def)
  from remove_outliers_loop_frames [OF lt run]
  have keep: "\<forall>b < fresh ?st1. frames st2 b = frames ?st1 b" by blast
  have fr: "fresh ?st1 = fresh st" by (simp add: write_frame_def)
  show "frames (fst (create_chartjs_data st df column_names chart_type)) df
           = convert_to_numeric (frames st df)"
    using keep assms unfolding fst_eq fr by (simp add: write_frame_def)
  show "\<forall>b < fresh st. b \<noteq> df \<longrightarrow>
           frames (fst (create_chartjs_data st df column_names chart_type)) b = frames st b"
    using keep unfolding fst_eq fr by (simp add: write_frame_def)
qed

lemma store_of_simps: "frames (store_of d) 0 = d" "fresh (store_of d) = 1"
  by (simp_all add: store_of_def)

lemma convert_column_mixed: "convert_column (ObjCol [''1'', ''2.0'']) = IntCol [1, 2]"
  unfolding convert_column_def to_numeric_mixed by (simp add: py_int_real_def)

text \<open>
  C6, as the claim states it, fails: after a call on a dataset whose column \<open>a\<close> holds
  the texts \<open>"1"\<close> and \<open>"2.0"\<close>, the caller's dataset holds the integers 1 and 2 in
  that column, so it is not equal to its value before the call.
\<close>

theorem create_chartjs_data_mutates_counterexample:
  "frames (fst (create_chartjs_data (store_of [(''a'', ObjCol [''1'', ''2.0''])]) 0 [''a''] ''bar'')) 0
     = [(''a'', IntCol [1, 2])] \<and>
   frames (store_of [(''a'', ObjCol [''1'', ''2.0''])]) 0 \<noteq> [(''a'', IntCol [1, 2])]"
proof -
  have "(0::nat) < fresh (store_of [(''a'', ObjCol [''1'', ''2.0''])])"
    by (simp add: store_of_simps)
  from create_chartjs_data_frames(1) [OF this]
  show ?thesis
    by (simp add: store_of_simps convert_to_numeric_single convert_column_mixed)
qed

text \<open>
  C6, amended. For every dataset, column selection and chart type, whether the call
  returns or raises: after the call the caller's dataset is the result of the Type
  Normalizer on its value before the call, with the same column names and the same
  number of rows (no row is removed from it), and every other dataset in the store
  is unchanged.
\<close>

theorem create_chartjs_data_caller_frame:
  assumes "df < fresh st"
  shows "frames (fst (create_chartjs_data st df column_names chart_type)) df
           = convert_to_numeric (frames st df) \<and>
         columns (frames (fst (create_chartjs_data st df column_names chart_type)) df)
           = columns (frames st df) \<and>
         nrows (frames (fst (create_chartjs_data st df column_names chart_type)) df)
           = nrows (frames st df) \<and>
         (\<forall>b < fresh st. b \<noteq> df \<longrightarrow>
            frames (fst (create_chartjs_data st df column_names chart_type)) b = frames st b)"
  using create_chartjs_data_frames [OF assms]
  by (simp add: columns_convert_to_numeric nrows_convert_to_numeric)

theorem create_chartjs_data_caller_frame_witness:
  "(0::nat) < fresh (store_of [(''a'', ObjCol [''1'', ''2'']), (''b'', ObjCol [''x'', ''y''])]) \<and>
   columns (frames (fst (create_chartjs_data
      (store_of [(''a'', ObjCol [''1'', ''2'']), (''b'', ObjCol [''x'', ''y''])]) 0 [''a''] ''bar'')) 0)
     = [''a'', ''b''] \<and>
   nrows (frames (fst (create_chartjs_data
      (store_of [(''a'', ObjCol [''1'', ''2'']), (''b'', ObjCol [''x'', ''y''])]) 0 [''a''] ''bar'')) 0)
     = 2"
proof -
  let ?d = "[(''a'', ObjCol [''1'', ''2'']), (''b'', ObjCol [''x'', ''y''])]"
  have h: "(0::nat) < fresh (store_of ?d)" by (simp add: store_of_simps)
  from create_chartjs_data_caller_frame [OF h, of "[''a'']" "''bar''"]
  have "columns (frames (fst (create_chartjs_data (store_of ?d) 0 [''a''] ''bar'')) 0)
          = columns (frames (store_of ?d) 0)"
    and "nrows (frames (fst (create_chartjs_data (store_of ?d) 0 [''a''] ''bar'')) 0)
          = nrows (frames (store_of ?d) 0)"
    by blast+
  then show ?thesis using h by (simp add: store_of_simps columns_def nrows_def)
qed


section \<open>Properties of the Outlier Filter\<close>











lemma wf_df_lengths: "wf_df df \<Longrightarrow> get_col df name = Some c \<Longrightarrow> length (cells c) = nrows df"
  by (auto simp: wf_df_def get_col_def dest!: map_of_SomeD)









lemma select_rows_nil:
  assumes "\<forall>(n, c) \<in> set df. cells c = []"
  shows "select_rows [] df = df"
proof -
  have "mask_column [] c = c" if "cells c = []" for c
    using that by (cases c) (simp_all add: take_mask_def)
  then have "\<And>p. p \<in> set df \<Longrightarrow> (\<lambda>(n, c). (n, mask_column [] c)) p = p"
    using assms by auto
  then show ?thesis unfolding select_rows_def by (rule map_idI)
qed

text \<open>
  C9. On a well-formed dataset with zero rows, \<open>remove_outliers_iqr\<close> applied to any
  of its columns, of any dtype, does not raise: the quartiles are NaN and the dataset
  comes back as it is, with zero rows.
\<close>

theorem remove_outliers_iqr_empty:
  assumes "wf_df df"
    and "nrows df = 0"
    and "get_col df column_name = Some c"
  shows "remove_outliers_iqr df column_name = Inr df \<and> rows df = []"
proof -
  have all: "\<forall>(n, c') \<in> set df. cells c' = []"
    using assms(1,2) by (auto simp: wf_df_def)
  have c: "cells c = []" using wf_df_lengths [OF assms(1,3)] assms(2) by simp
  have "remove_outliers_iqr df column_name = Inr (select_rows [] df)"
    using c assms(3) by (cases c) (simp_all add: remove_outliers_iqr_def iqr_bounds_def)
  then show ?thesis using all assms(2) by (simp add: select_rows_nil rows_def)
qed

theorem remove_outliers_iqr_empty_witness:
  "wf_df [(''region'', ObjCol []), (''sales'', IntCol [])] \<and>
   nrows [(''region'', ObjCol []), (''sales'', IntCol [])] = 0 \<and>
   get_col [(''region'', ObjCol []), (''sales'', IntCol [])] ''region'' = Some (ObjCol []) \<and>
   remove_outliers_iqr [(''region'', ObjCol []), (''sales'', IntCol [])] ''region''
     = Inr [(''region'', ObjCol []), (''sales'', IntCol [])]"
proof -
  let ?df = "[(''region'', ObjCol []), (''sales'', IntCol [])]"
  have wf: "wf_df ?df" by (simp add: wf_df_def nrows_def)
  have z: "nrows ?df = 0" by (simp add: nrows_def)
  have g: "get_col ?df ''region'' = Some (ObjCol [])" by (simp add: get_col_def)
  from remove_outliers_iqr_empty [OF wf z g] wf z g show ?thesis by blast
qed


section \<open>Properties of the Aggregator/Formatter\<close>

lemma convert_column_IntCol: "convert_column (IntCol xs) = IntCol xs"
  by (simp add: convert_column_def Let_def list_ex_iff list_all_iff py_int_real_of_int o_def)

lemma convert_to_numeric_pair:
  "n1 \<noteq> n2 \<Longrightarrow>
   convert_to_numeric [(n1, c1), (n2, c2)] = [(n1, convert_column c1), (n2, convert_column c2)]"
  by (simp add: convert_to_numeric_def columns_def convert_step_def get_col_def set_col_def)

lemma create_chartjs_data_store_of:
  "snd (create_chartjs_data (store_of d) 0 column_names chart_type)
     = chart_of d column_names chart_type"
  using create_chartjs_data_result [of 0 "store_of d" column_names chart_type]
  by (simp add: store_of_simps)

subsection \<open>The scenario with two regions\<close>

lemma sort_regions: "sort [1, 1, 2 :: real] = [1, 1, 2]"
  by simp

lemma sort_sales: "sort [10, 30, 20 :: real] = [10, 20, 30]"
  by simp

lemma remove_outliers_regions:
  "remove_outliers_iqr [(''region'', IntCol [1, 1, 2]), (''sales'', IntCol [10, 30, 20])] ''region''
    = Inr [(''region'', IntCol [1, 1, 2]), (''sales'', IntCol [10, 30, 20])]"
  by (simp add: remove_outliers_iqr_def get_col_def quantile_linear_def sort_regions
      iqr_bounds_def in_bounds_def select_rows_def take_mask_def)

lemma remove_outliers_sales:
  "remove_outliers_iqr [(''region'', IntCol [1, 1, 2]), (''sales'', IntCol [10, 30, 20])] ''sales''
    = Inr [(''region'', IntCol [1, 1, 2]), (''sales'', IntCol [10, 30, 20])]"
  by (simp add: remove_outliers_iqr_def get_col_def quantile_linear_def sort_sales
      iqr_bounds_def in_bounds_def select_rows_def take_mask_def)

lemma lower_bar: "lower ''bar'' = ''bar''"
  by (simp add: lower_def lower_char_def)

lemma bar_rows_regions:
  "bar_rows [(''region'', IntCol [1, 1, 2]), (''sales'', IntCol [10, 30, 20])] ''region'' [''sales'']
     (initial_chart_data ''bar'')
   = Inr ((initial_chart_data ''bar'')
        \<lparr>labelsKey := ''region'', valuesKey := ''sales'',
         data := [[(''region'', IntV 1), (''sales'', IntV 10)],
                  [(''region'', IntV 1), (''sales'', IntV 30)],
                  [(''region'', IntV 2), (''sales'', IntV 20)]]\<rparr>)"
  by (simp add: bar_rows_def get_col_def fill_values_def initial_chart_data_def)

lemma sort_rows_regions:
  "sort_key first_value [[(''region'', IntV 1), (''sales'', IntV 10)],
                         [(''region'', IntV 1), (''sales'', IntV 30)],
                         [(''region'', IntV 2), (''sales'', IntV 20)]]
   = [[(''region'', IntV 1), (''sales'', IntV 10)],
      [(''region'', IntV 1), (''sales'', IntV 30)],
      [(''region'', IntV 2), (''sales'', IntV 20)]]"
  by simp

lemma aggregate_regions:
  "aggregate ''region'' [[(''region'', IntV 1), (''sales'', IntV 10)],
                         [(''region'', IntV 1), (''sales'', IntV 30)],
                         [(''region'', IntV 2), (''sales'', IntV 20)]]
   = Inr [[(''region'', IntV 1), (''sales'', FloatV 20)],
          [(''region'', IntV 2), (''sales'', FloatV 20)]]"
  by (simp add: aggregate_def List.map_filter_def mean_def)

lemma build_chart_regions:
  "build_chart [(''region'', IntCol [1, 1, 2]), (''sales'', IntCol [10, 30, 20])]
     [''region'', ''sales''] ''bar''
   = Inr \<lparr>chartType = ''bar'',
          data = [[(''region'', IntV 1), (''sales'', FloatV 20)],
                  [(''region'', IntV 2), (''sales'', FloatV 20)]],
          labelsKey = ''region'', valuesKey = ''sales'',
          options_scales = Some \<lparr>y_beginAtZero = True, y_title_text = ''Value'',
                                 x_title_text = ''region''\<rparr>\<rparr>"
proof -
  have "finish ''region'' ((initial_chart_data ''bar'')
          \<lparr>labelsKey := ''region'', valuesKey := ''sales'',
           data := [[(''region'', IntV 1), (''sales'', IntV 10)],
                    [(''region'', IntV 1), (''sales'', IntV 30)],
                    [(''region'', IntV 2), (''sales'', IntV 20)]]\<rparr>)
        = Inr \<lparr>chartType = ''bar'',
          data = [[(''region'', IntV 1), (''sales'', FloatV 20)],
                  [(''region'', IntV 2), (''sales'', FloatV 20)]],
          labelsKey = ''region'', valuesKey = ''sales'',
          options_scales = Some \<lparr>y_beginAtZero = True, y_title_text = ''Value'',
                                 x_title_text = ''region''\<rparr>\<rparr>"
    unfolding finish_def
    by (simp add: initial_chart_data_def sort_rows_regions aggregate_regions)
  then show ?thesis
    by (simp add: build_chart_def columns_def lower_bar bar_rows_regions)
qed

lemma chart_of_regions:
  assumes "convert_to_numeric d = [(''region'', IntCol [1, 1, 2]), (''sales'', IntCol [10, 30, 20])]"
  shows "chart_of d [''region'', ''sales''] ''bar''
   = Inr \<lparr>chartType = ''bar'',
          data = [[(''region'', IntV 1), (''sales'', FloatV 20)],
                  [(''region'', IntV 2), (''sales'', FloatV 20)]],
          labelsKey = ''region'', valuesKey = ''sales'',
          options_scales = Some \<lparr>y_beginAtZero = True, y_title_text = ''Value'',
                                 x_title_text = ''region''\<rparr>\<rparr>"
  unfolding chart_of_def assms
  by (simp add: remove_outliers_regions remove_outliers_sales build_chart_regions)

lemma parse_decimal_letters: "parse_decimal ''A'' = None" "parse_decimal ''B'' = None"
  by (simp_all add: parse_simps)

lemma convert_column_letters:
  "convert_column (ObjCol [''A'', ''A'', ''B'']) = ObjCol [''A'', ''A'', ''B'']"
  by (rule convert_column_unparsed) (simp add: parse_decimal_letters)

lemma chart_of_letters:
  "chart_of [(''region'', ObjCol [''A'', ''A'', ''B'']), (''sales'', IntCol [10, 30, 20])]
     [''region'', ''sales''] ''bar''
   = Inl (TypeError ''unsupported operand type(s) for -: str and str'')"
  by (simp add: chart_of_def convert_to_numeric_pair convert_column_letters convert_column_IntCol
      remove_outliers_iqr_def get_col_def)

text \<open>
  C1, as the claim states it, fails: on the dataset with the regions \<open>"A"\<close>, \<open>"A"\<close>,
  \<open>"B"\<close> the call returns no payload. The label column is text, and the outlier
  removal on it raises.
\<close>

theorem create_chartjs_data_text_regions_counterexample:
  "snd (create_chartjs_data
          (store_of [(''region'', ObjCol [''A'', ''A'', ''B'']), (''sales'', IntCol [10, 30, 20])])
          0 [''region'', ''sales''] ''bar'')
     = Inl (TypeError ''unsupported operand type(s) for -: str and str'')"
  by (simp only: create_chartjs_data_store_of chart_of_letters)

text \<open>
  C1, amended. For the dataset whose rows are \<open>{region: 1, sales: 10}\<close>,
  \<open>{region: 1, sales: 30}\<close>, \<open>{region: 2, sales: 20}\<close>, the call with the columns
  \<open>["region", "sales"]\<close> and the chart type \<open>"bar"\<close> returns a payload whose data is
  exactly \<open>[{region: 1, sales: 20.0}, {region: 2, sales: 20.0}]\<close>: the rows with the
  same label are merged into one entry with the mean of the group.
\<close>

theorem create_chartjs_data_merges_by_mean:
  "snd (create_chartjs_data
          (store_of [(''region'', IntCol [1, 1, 2]), (''sales'', IntCol [10, 30, 20])])
          0 [''region'', ''sales''] ''bar'')
     = Inr \<lparr>chartType = ''bar'',
            data = [[(''region'', IntV 1), (''sales'', FloatV 20)],
                    [(''region'', IntV 2), (''sales'', FloatV 20)]],
            labelsKey = ''region'', valuesKey = ''sales'',
            options_scales = Some \<lparr>y_beginAtZero = True, y_title_text = ''Value'',
                                   x_title_text = ''region''\<rparr>\<rparr>"
proof -
  have "convert_to_numeric [(''region'', IntCol [1, 1, 2]), (''sales'', IntCol [10, 30, 20])]
          = [(''region'', IntCol [1, 1, 2]), (''sales'', IntCol [10, 30, 20])]"
    by (simp add: convert_to_numeric_pair convert_column_IntCol)
  then show ?thesis
    by (simp only: create_chartjs_data_store_of chart_of_regions)
qed

subsection \<open>Pie and doughnut charts\<close>

lemma finish_without_scales:
  "options_scales cd = None \<Longrightarrow> finish labels_col cd = Inl (KeyError ''scales'')"
  by (simp add: finish_def)

lemma build_chart_pie_raises:
  assumes "lower chart_type \<in> set [''pie'', ''doughnut'']"
  shows "\<exists>e. build_chart d column_names chart_type = Inl e"
proof (cases column_names)
  case Nil
  then show ?thesis by (simp add: build_chart_def)
next
  case (Cons labels_col value_columns)
  show ?thesis
  proof (cases "pie_rows d labels_col (column_names ! 1)")
    case (Inl e)
    then show ?thesis using assms Cons
      by (simp add: build_chart_def Let_def)
  next
    case (Inr rs)
    then show ?thesis using assms Cons
      by (simp add: build_chart_def Let_def finish_without_scales)
  qed
qed

lemma chart_of_pie_raises:
  assumes "lower chart_type \<in> set [''pie'', ''doughnut'']"
  shows "\<exists>e. chart_of d column_names chart_type = Inl e"
proof (cases "remove_outliers_all (convert_to_numeric d) column_names")
  case (Inl e)
  then show ?thesis by (simp add: chart_of_def)
next
  case (Inr d')
  then show ?thesis using build_chart_pie_raises [OF assms, of d' column_names]
    by (simp add: chart_of_def)
qed

text \<open>No call for a pie or doughnut chart returns a payload, whatever the dataset.\<close>

lemma create_chartjs_data_pie_raises:
  assumes "df < fresh st" and "lower chart_type \<in> set [''pie'', ''doughnut'']"
  shows "\<exists>e. snd (create_chartjs_data st df column_names chart_type) = Inl e"
  using chart_of_pie_raises [OF assms(2)] create_chartjs_data_result [OF assms(1)]
  by simp

lemma sort_ab: "sort [1, 2 :: real] = [1, 2]" "sort [3, 4 :: real] = [3, 4]"
  by simp_all

lemma remove_outliers_ab:
  "remove_outliers_iqr [(''a'', IntCol [1, 2]), (''b'', IntCol [3, 4])] ''a''
    = Inr [(''a'', IntCol [1, 2]), (''b'', IntCol [3, 4])]"
  "remove_outliers_iqr [(''a'', IntCol [1, 2]), (''b'', IntCol [3, 4])] ''b''
    = Inr [(''a'', IntCol [1, 2]), (''b'', IntCol [3, 4])]"
  by (simp_all add: remove_outliers_iqr_def get_col_def quantile_linear_def sort_ab
      iqr_bounds_def in_bounds_def select_rows_def take_mask_def)

lemma lower_pie: "lower ''pie'' = ''pie''"
  by (simp add: lower_def lower_char_def)

lemma pie_rows_ab:
  "pie_rows [(''a'', IntCol [1, 2]), (''b'', IntCol [3, 4])] ''a'' ''b''
    = Inr [[(''a'', IntV 1), (''b'', IntV 3)], [(''a'', IntV 2), (''b'', IntV 4)]]"
  by (simp add: pie_rows_def get_col_def)

lemma build_chart_pie_ab:
  "build_chart [(''a'', IntCol [1, 2]), (''b'', IntCol [3, 4])] [''a'', ''b''] ''pie''
     = Inl (KeyError ''scales'')"
  by (simp add: build_chart_def columns_def lower_pie pie_rows_ab finish_without_scales)

text \<open>
  C2: the code does not do what the claim says. On the dataset with the integer
  columns \<open>a = [1, 2]\<close> and \<open>b = [3, 4]\<close>, the two columns selected and the chart type
  \<open>"pie"\<close>, the entries are built with the two keys and the scales are removed, but
  then the x-axis title is written into the removed scales and the call raises
  \<open>KeyError('scales')\<close>: no payload is returned.
\<close>

theorem create_chartjs_data_pie_key_error:
  "snd (create_chartjs_data (store_of [(''a'', IntCol [1, 2]), (''b'', IntCol [3, 4])])
          0 [''a'', ''b''] ''pie'')
     = Inl (KeyError ''scales'')"
proof -
  have "convert_to_numeric [(''a'', IntCol [1, 2]), (''b'', IntCol [3, 4])]
          = [(''a'', IntCol [1, 2]), (''b'', IntCol [3, 4])]"
    by (simp add: convert_to_numeric_pair convert_column_IntCol)
  then have "chart_of [(''a'', IntCol [1, 2]), (''b'', IntCol [3, 4])] [''a'', ''b''] ''pie''
          = Inl (KeyError ''scales'')"
    unfolding chart_of_def by (simp add: remove_outliers_ab build_chart_pie_ab)
  then show ?thesis by (simp only: create_chartjs_data_store_of)
qed


subsection \<open>Validation of the column selection\<close>

lemma remove_outliers_missing:
  "remove_outliers_iqr [(''a'', IntCol [1, 2])] ''b'' = Inl (KeyError ''b'')"
  by (simp add: remove_outliers_iqr_def get_col_def)

text \<open>
  C4: the code does not do what the claim says for a name that is not a column. On
  the dataset with the single column \<open>a = [1, 2]\<close> and the selection \<open>["b"]\<close> the call
  raises \<open>KeyError('b')\<close> from the outlier removal, which runs before the check of the
  selection, and not the validation error \<open>ValueError("Columns not found ...")\<close>.
\<close>

theorem create_chartjs_data_missing_column_key_error:
  "snd (create_chartjs_data (store_of [(''a'', IntCol [1, 2])]) 0 [''b''] ''bar'')
     = Inl (KeyError ''b'') \<and>
   KeyError ''b'' \<noteq> ValueError (''Columns not found in DataFrame: '' @ join '', '' [''b''])"
proof -
  have "chart_of [(''a'', IntCol [1, 2])] [''b''] ''bar'' = Inl (KeyError ''b'')"
    by (simp add: chart_of_def convert_to_numeric_single convert_column_IntCol
        remove_outliers_missing)
  then show ?thesis by (simp only: create_chartjs_data_store_of) simp
qed

text \<open>The empty selection is rejected with the validation error, as the claim says.\<close>

lemma create_chartjs_data_empty_selection:
  assumes "df < fresh st"
  shows "snd (create_chartjs_data st df [] chart_type)
           = Inl (ValueError ''column_names cannot be empty.'')"
  using create_chartjs_data_result [OF assms, of "[]" chart_type]
  by (simp add: chart_of_def build_chart_def)

text \<open>
  A name that is not a column never reaches the check of the selection: the loop of
  outlier removals raises first, and never a \<open>ValueError\<close>.
\<close>

lemma columns_select_rows: "columns (select_rows m d) = columns d"
  by (simp add: columns_def select_rows_def case_prod_unfold o_def)

lemma remove_outliers_iqr_cases:
  obtains (missing) "get_col d col = None" "remove_outliers_iqr d col = Inl (KeyError col)"
  | (q1) c e where "get_col d col = Some c" "quantile c 0.25 = Inl e"
      "remove_outliers_iqr d col = Inl e"
  | (q3) c e where "get_col d col = Some c" "quantile c 0.75 = Inl e"
      "remove_outliers_iqr d col = Inl e"
  | (mask) c b e where "get_col d col = Some c" "bounds_mask c b = Inl e"
      "remove_outliers_iqr d col = Inl e"
  | (ok) m where "remove_outliers_iqr d col = Inr (select_rows m d)"
proof (cases "get_col d col")
  case None
  then show ?thesis using missing by (simp add: remove_outliers_iqr_def)
next
  case (Some c)
  note c = this
  show ?thesis
  proof (cases "quantile c 0.25")
    case (Inl e)
    then show ?thesis using q1 c by (simp add: remove_outliers_iqr_def)
  next
    case (Inr Q1)
    note Q1 = this
    show ?thesis
    proof (cases "quantile c 0.75")
      case (Inl e)
      then show ?thesis using q3 c Q1 by (simp add: remove_outliers_iqr_def)
    next
      case (Inr Q3)
      show ?thesis
      proof (cases "bounds_mask c (iqr_bounds Q1 Q3)")
        case (Inl e)
        then show ?thesis using mask c Q1 Inr by (simp add: remove_outliers_iqr_def)
      next
        case (Inr m)
        then show ?thesis using ok c Q1 \<open>quantile c 0.75 = Inr Q3\<close>
          by (simp add: remove_outliers_iqr_def)
      qed
    qed
  qed
qed

lemma remove_outliers_iqr_columns:
  assumes "remove_outliers_iqr d col = Inr d'"
  shows "columns d' = columns d"
  using assms by (cases d col rule: remove_outliers_iqr_cases) (auto simp: columns_select_rows)

lemma quantile_error: "quantile c q = Inl e \<Longrightarrow> \<exists>m. e = TypeError m"
  by (cases c) (auto split: if_splits)

lemma bounds_mask_error: "bounds_mask c b = Inl e \<Longrightarrow> \<exists>m. e = TypeError m"
  by (cases c) (auto split: if_splits)

lemma remove_outliers_iqr_error:
  assumes "remove_outliers_iqr d col = Inl e"
  shows "e = KeyError col \<or> (\<exists>m. e = TypeError m)"
  using assms
  by (cases d col rule: remove_outliers_iqr_cases)
     (auto dest: quantile_error bounds_mask_error)

lemma remove_outliers_iqr_missing:
  assumes "col \<notin> set (columns d)"
  shows "remove_outliers_iqr d col = Inl (KeyError col)"
proof -
  have "get_col d col = None"
    using assms by (simp add: get_col_def columns_def map_of_eq_None_iff)
  then show ?thesis by (simp add: remove_outliers_iqr_def)
qed

lemma remove_outliers_all_missing:
  "col \<in> set cols \<Longrightarrow> col \<notin> set (columns d) \<Longrightarrow>
   \<exists>e. remove_outliers_all d cols = Inl e \<and> (\<forall>m. e \<noteq> ValueError m)"
proof (induction cols arbitrary: d)
  case Nil
  then show ?case by simp
next
  case (Cons c cols)
  show ?case
  proof (cases "remove_outliers_iqr d c")
    case (Inl e)
    then show ?thesis using remove_outliers_iqr_error [OF Inl] by auto
  next
    case (Inr d')
    then have "c \<in> set (columns d)" using remove_outliers_iqr_missing [of c d] by auto
    then have "col \<in> set cols" using Cons.prems by auto
    moreover have "col \<notin> set (columns d')"
      using Cons.prems(2) remove_outliers_iqr_columns [OF Inr] by simp
    ultimately show ?thesis using Cons.IH [of d'] Inr by simp
  qed
qed

lemma create_chartjs_data_missing_column:
  assumes "df < fresh st"
    and "col \<in> set column_names"
    and "col \<notin> set (columns (frames st df))"
  shows "\<exists>e. snd (create_chartjs_data st df column_names chart_type) = Inl e \<and>
             (\<forall>m. e \<noteq> ValueError m)"
proof -
  have "col \<notin> set (columns (convert_to_numeric (frames st df)))"
    using assms(3) by (simp add: columns_convert_to_numeric)
  from remove_outliers_all_missing [OF assms(2) this]
  show ?thesis using create_chartjs_data_result [OF assms(1), of column_names chart_type]
    by (auto simp: chart_of_def)
qed

subsection \<open>Text in the label column\<close>










section \<open>Properties of the Inference Extractor\<close>




















end
